theory Spec2Isabelle
  imports Complex_Main
begin

section \<open>Python values\<close>

text \<open>
  The analyzers are Python. Python's unbounded \<open>int\<close> is \<^typ>\<open>int\<close>. Python's
  \<open>float\<close> is modelled by \<^typ>\<open>real\<close>: every arithmetic step is taken exactly, so
  the theorems below describe the formulas the code evaluates and say nothing about the
  rounding error of IEEE doubles. An exception is a value of \<open>py_error\<close>, and a
  computation that may raise returns \<open>py_error + 'a\<close> with \<open>Inl\<close> for the exception.
\<close>

datatype py_error =
    ZeroDivisionError
  | ValueError
  | QueryError
  | InvalidArgument

text \<open>
  \<open>QueryError\<close> stands for whatever a database call raises. \<open>InvalidArgument\<close> is
  the failure the specification names for malformed arguments; no line of the analyzers
  raises it, and it is here so that its absence can be stated. \<open>then_do\<close> is the
  sequencing of two awaited calls: the second runs only if the first returned.
\<close>

definition then_do :: "py_error + 'a \<Rightarrow> ('a \<Rightarrow> py_error + 'b) \<Rightarrow> py_error + 'b" where
  "then_do m f = (case m of Inl e \<Rightarrow> Inl e | Inr v \<Rightarrow> f v)"

text \<open>
  \<open>round(x)\<close> of Python 3 rounds to the nearest integer and a tie to the even
  neighbour; \<open>round(x, 1)\<close> does the same at one decimal place.
\<close>

definition py_round :: "real \<Rightarrow> int" where
  "py_round x =
     (let f = \<lfloor>x\<rfloor>; r = x - of_int f
      in if r < 1 / 2 then f
         else if 1 / 2 < r then f + 1
         else if even f then f else f + 1)"

definition py_round1 :: "real \<Rightarrow> real" where
  "py_round1 x = of_int (py_round (x * 10)) / 10"

section \<open>The confidence model (\<open>health_analyzer.py\<close>)\<close>

text \<open>
  \<open>_calculate_confidence\<close>: the target is ten messages a day; the quotient
  \<open>message_count / target_messages\<close> is Python's true division, which raises
  \<open>ZeroDivisionError\<close> when the divisor is zero.
\<close>

definition calculate_confidence :: "int \<Rightarrow> int \<Rightarrow> py_error + real" where
  "calculate_confidence message_count days =
     (let target_messages = days * 10
      in if target_messages = 0 then Inl ZeroDivisionError
         else Inr (min 1 (of_int message_count / of_int target_messages)))"

section \<open>The statistics queries of \<open>health_analyzer.py\<close>\<close>

text \<open>
  \<open>HealthAnalyzer\<close> of \<open>health_analyzer.py\<close> calls seven query methods of its
  \<open>db\<close> object. Their code is not part of the repository's sources, so the object is a
  parameter: a record of functions from guild id and day window to the query's result or
  the exception it raised.
\<close>

record join_leave_stats =
  joins :: int
  leaves :: int
  retention_rate :: real

record channel_row =
  ca_channel_id :: int
  ca_message_count :: int

record stats_provider =
  get_message_count :: "int \<Rightarrow> int \<Rightarrow> py_error + int"
  get_active_users :: "int \<Rightarrow> int \<Rightarrow> py_error + int"
  get_activity_trend :: "int \<Rightarrow> int \<Rightarrow> py_error + real"
  get_peak_hours :: "int \<Rightarrow> int \<Rightarrow> py_error + int list"
  get_quiet_channels :: "int \<Rightarrow> int \<Rightarrow> py_error + int list"
  get_join_leave_stats :: "int \<Rightarrow> int \<Rightarrow> py_error + join_leave_stats"
  get_channel_activity :: "int \<Rightarrow> int \<Rightarrow> py_error + channel_row list"

section \<open>The pulse of \<open>health_analyzer.py\<close>\<close>

datatype confidence_warning = Very_limited_data | Limited_data

record pulse =
  p_total_messages :: int
  p_active_members :: int
  p_total_members :: int
  p_trend :: real
  p_peak_hours :: "int list"
  p_quiet_channels :: "int list"
  p_days_analyzed :: int
  p_confidence :: real
  p_low_confidence :: bool
  p_confidence_warning :: "confidence_warning option"

text \<open>
  \<open>get_pulse\<close> has no \<open>try\<close>: an exception of a query, or of the confidence
  computation, leaves the function.
\<close>

definition get_pulse :: "stats_provider \<Rightarrow> int \<Rightarrow> int \<Rightarrow> py_error + pulse" where
  "get_pulse db guild_id days =
     then_do (get_message_count db guild_id days) (\<lambda>total_messages.
     then_do (get_active_users db guild_id days) (\<lambda>active_members.
     then_do (get_activity_trend db guild_id days) (\<lambda>trend.
     then_do (get_peak_hours db guild_id days) (\<lambda>peak_hours.
     then_do (get_quiet_channels db guild_id days) (\<lambda>quiet_channels.
     let total_members = active_members
     in then_do (calculate_confidence total_messages days) (\<lambda>confidence.
     let low_confidence = (confidence < 0.5);
         confidence_warning =
           (if low_confidence
            then (if total_messages < 50 then Some Very_limited_data else Some Limited_data)
            else None)
     in Inr \<lparr>p_total_messages = total_messages, p_active_members = active_members,
             p_total_members = total_members, p_trend = trend, p_peak_hours = peak_hours,
             p_quiet_channels = quiet_channels, p_days_analyzed = days,
             p_confidence = confidence, p_low_confidence = low_confidence,
             p_confidence_warning = confidence_warning\<rparr>))))))"

section \<open>The health score of \<open>health_analyzer.py\<close>\<close>

datatype metric = Activity | Growth | Engagement | Channel_Health

text \<open>The four blocks of \<open>calculate_health_score\<close> that fill the \<open>scores\<close> dict.\<close>

definition activity_score :: "int \<Rightarrow> int \<Rightarrow> real" where
  "activity_score messages_30d active_users_30d =
     (if active_users_30d > 0
      then (let msgs_per_user_per_day = of_int messages_30d / of_int (active_users_30d * 30)
            in min 100 (msgs_per_user_per_day * 20))
      else 0)"

definition growth_score :: "real \<Rightarrow> join_leave_stats \<Rightarrow> real" where
  "growth_score trend join_leave =
     (let growth_score = 50;
          growth_score = growth_score + min 25 (max (- 25) (trend * 0.5));
          growth_score = growth_score + min 25 (retention_rate join_leave * 0.25)
      in max 0 (min 100 growth_score))"

definition engagement_score :: "int \<Rightarrow> int \<Rightarrow> real" where
  "engagement_score active_users_7d active_users_30d =
     (if active_users_30d > 0
      then (let engagement_ratio = of_int active_users_7d / of_int active_users_30d
            in engagement_ratio * 100)
      else 0)"

text \<open>
  The entropy loop. The division \<open>message_count / total_msgs\<close> raises when the total is
  zero, and \<open>math.log2\<close> raises \<open>ValueError\<close> on an argument that is not positive;
  neither happens when all counts are non-negative.
\<close>

fun entropy_loop :: "int \<Rightarrow> channel_row list \<Rightarrow> real \<Rightarrow> py_error + real" where
  "entropy_loop total_msgs [] entropy = Inr entropy"
| "entropy_loop total_msgs (ch # rest) entropy =
     (if ca_message_count ch > 0
      then (if total_msgs = 0 then Inl ZeroDivisionError
            else (let p = of_int (ca_message_count ch) / of_int total_msgs
                  in if p \<le> 0 then Inl ValueError
                     else entropy_loop total_msgs rest (entropy - p * log 2 p)))
      else entropy_loop total_msgs rest entropy)"

definition channel_health_score :: "channel_row list \<Rightarrow> py_error + real" where
  "channel_health_score channel_activity =
     (if length channel_activity > 0
      then (let total_msgs = sum_list (map ca_message_count channel_activity)
            in then_do (entropy_loop total_msgs channel_activity 0) (\<lambda>entropy.
               let max_entropy =
                     (if length channel_activity > 1
                      then log 2 (of_nat (length channel_activity)) else 1);
                   channel_score =
                     (if max_entropy > 0 then (entropy / max_entropy) * 100 else 50)
               in Inr channel_score))
      else Inr 0)"

fun weights :: "metric \<Rightarrow> real" where
  "weights Activity = 0.35"
| "weights Growth = 0.25"
| "weights Engagement = 0.25"
| "weights Channel_Health = 0.15"

text \<open>
  The summary is one of four texts, chosen with its priority line by the score; the
  texts themselves are named by constructors. \<open>min(scores.items(), key=...)\<close> keeps the
  first of several smallest items.
\<close>

datatype health_tier = Excellent | Good | Moderate | Critical

definition summary_tier :: "real \<Rightarrow> health_tier" where
  "summary_tier overall_score =
     (if overall_score \<ge> 80 then Excellent
      else if overall_score \<ge> 60 then Good
      else if overall_score \<ge> 40 then Moderate
      else Critical)"

fun min_item :: "(metric \<times> real) \<Rightarrow> (metric \<times> real) list \<Rightarrow> (metric \<times> real)" where
  "min_item best [] = best"
| "min_item best (x # xs) = min_item (if snd x < snd best then x else best) xs"

datatype recommendation =
    Priority health_tier
  | Low_activity
  | Declining_fast
  | Members_leaving
  | Lurking
  | Too_many_channels
  | Too_concentrated

record health_report =
  score :: int
  metrics :: "(metric \<times> int) list"
  summary :: health_tier
  below_60_note :: bool
  data_quality_note :: "real option"
  recommendations :: "recommendation list"
  lowest_metric :: metric
  confidence :: real
  low_confidence :: bool

text \<open>
  \<open>calculate_health_score\<close>, with no \<open>try\<close> either. The returned \<open>summary\<close> string
  is the tier's text followed by the two optional notes; the second interpolates
  \<open>confidence * 100\<close>.
\<close>

definition calculate_health_score :: "stats_provider \<Rightarrow> int \<Rightarrow> py_error + health_report" where
  "calculate_health_score db guild_id =
     then_do (get_message_count db guild_id 30) (\<lambda>messages_30d.
     then_do (get_active_users db guild_id 30) (\<lambda>active_users_30d.
     then_do (get_active_users db guild_id 7) (\<lambda>active_users_7d.
     then_do (get_activity_trend db guild_id 7) (\<lambda>trend.
     then_do (get_join_leave_stats db guild_id 30) (\<lambda>join_leave.
     then_do (get_channel_activity db guild_id 30) (\<lambda>channel_activity.
     then_do (calculate_confidence messages_30d 30) (\<lambda>confidence.
     let low_confidence = (confidence < 0.5);
         activity = activity_score messages_30d active_users_30d;
         growth = growth_score trend join_leave;
         engagement = engagement_score active_users_7d active_users_30d
     in then_do (channel_health_score channel_activity) (\<lambda>channel_health.
     let scores = [(Activity, activity), (Growth, growth), (Engagement, engagement),
                   (Channel_Health, channel_health)];
         overall_score = sum_list (map (\<lambda>(metric, v). v * weights metric) scores);
         tier = summary_tier overall_score;
         lowest = min_item (hd scores) (tl scores);
         recommendations =
           (if overall_score < 80 then [Priority tier] else []) @
           (if activity < 50 then [Low_activity] else []) @
           (if growth < 50
            then (if trend < - 10 then [Declining_fast] else []) @
                 (if retention_rate join_leave < 50 then [Members_leaving] else [])
            else []) @
           (if engagement < 50 then [Lurking] else []) @
           (if channel_health < 50
            then (if length channel_activity > 10 then [Too_many_channels]
                  else [Too_concentrated])
            else [])
     in Inr \<lparr>score = py_round overall_score,
             metrics = map (\<lambda>(k, v). (k, py_round v)) scores,
             summary = tier,
             below_60_note = (overall_score < 60),
             data_quality_note = (if low_confidence then Some (confidence * 100) else None),
             recommendations = recommendations,
             lowest_metric = fst lowest,
             confidence = confidence,
             low_confidence = low_confidence\<rparr>))))))))"

section \<open>The suggestions of \<open>health_analyzer.py\<close>\<close>

text \<open>
  A suggestion is a title and a description; the constructor names the title and carries
  the number the description interpolates.
\<close>

datatype suggestion =
    Activity_decline real
  | Consolidate_channels nat
  | Improve_onboarding real
  | Optimize_event_timing int
  | Capitalize_on_growth real
  | Looks_healthy

definition suggestion_rules ::
  "real \<Rightarrow> channel_row list \<Rightarrow> join_leave_stats \<Rightarrow> int list \<Rightarrow> suggestion list" where
  "suggestion_rules trend channel_activity join_leave peak_hours =
     (let pattern1 = (if trend < - 15 then [Activity_decline \<bar>trend\<bar>] else []);
          dead_channels = filter (\<lambda>ch. ca_message_count ch < 5) channel_activity;
          pattern2 = (if length dead_channels > 3
                      then [Consolidate_channels (length dead_channels)] else []);
          pattern3 = (if retention_rate join_leave < 60 \<and> joins join_leave > 10
                      then [Improve_onboarding (retention_rate join_leave)] else []);
          pattern4 = (case peak_hours of [] \<Rightarrow> [] | h # _ \<Rightarrow> [Optimize_event_timing h]);
          pattern5 = (if trend > 25 then [Capitalize_on_growth trend] else []);
          suggestions = pattern1 @ pattern2 @ pattern3 @ pattern4 @ pattern5
      in if length suggestions = 0 then [Looks_healthy] else suggestions)"

definition generate_suggestions :: "stats_provider \<Rightarrow> int \<Rightarrow> py_error + suggestion list" where
  "generate_suggestions db guild_id =
     then_do (get_activity_trend db guild_id 7) (\<lambda>trend.
     then_do (get_channel_activity db guild_id 30) (\<lambda>channel_activity.
     then_do (get_join_leave_stats db guild_id 30) (\<lambda>join_leave.
     then_do (get_peak_hours db guild_id 30) (\<lambda>peak_hours.
     Inr (suggestion_rules trend channel_activity join_leave peak_hours)))))"

section \<open>The database manager (\<open>database/db_manager.py\<close>)\<close>

text \<open>
  The analyzers under \<open>analytics/\<close> read three queries of \<open>DatabaseManager\<close>. Each
  is SQL over the message table, so here too the manager is a record of functions giving
  the rows or the exception. An hour of \<open>hourly_data\<close> is the text of
  \<open>strftime('%H', ...)\<close>, which the pulse passes to \<open>int(...)\<close>: \<open>Some h\<close> is a
  text that \<open>int\<close> reads as \<open>h\<close>, \<open>None\<close> one on which \<open>int\<close> raises. A timestamp is
  a number of microseconds, the resolution of \<open>datetime\<close>; \<open>None\<close> is a missing or
  empty one.
\<close>

record message_stats =
  ms_total_messages :: int
  ms_active_users :: int
  ms_hourly_data :: "(int option \<times> int) list"

record channel_stat =
  cs_channel_id :: int
  cs_message_count :: int
  cs_unique_users :: int

record user_stat =
  us_user_id :: int
  us_message_count :: int
  us_channels_used :: int
  us_first_message :: "int option"
  us_last_message :: "int option"

record db_manager =
  get_message_stats :: "int \<Rightarrow> int \<Rightarrow> py_error + message_stats"
  get_channel_stats :: "int \<Rightarrow> int \<Rightarrow> py_error + channel_stat list"
  get_user_stats :: "int \<Rightarrow> int \<Rightarrow> py_error + user_stat list"

text \<open>
  \<open>list.sort(key=f, reverse=True)\<close> sorts in descending order of the key and keeps
  items of equal key in their original order: it is a stable ascending sort between two
  reversals.
\<close>

definition sort_key_reverse :: "('a \<Rightarrow> 'k::linorder) \<Rightarrow> 'a list \<Rightarrow> 'a list" where
  "sort_key_reverse f xs = rev (sort_key f (rev xs))"

section \<open>The channel analyzer (\<open>analytics/channel_analyzer.py\<close>)\<close>

record active_channel =
  ac_id :: int
  ac_messages :: int
  ac_users :: int
  ac_engagement :: real

record dead_channel =
  dc_id :: int
  dc_messages :: int
  dc_days_inactive :: int
  dc_last_activity :: string

record declining_channel =
  dl_id :: int
  dl_messages :: int
  dl_decline_pct :: real
  dl_users :: int

record channel_analysis =
  active :: "active_channel list"
  dead :: "dead_channel list"
  declining :: "declining_channel list"

text \<open>The \<open>for channel in channel_stats\<close> loop, appending to the three lists.\<close>

fun categorize ::
  "real \<Rightarrow> int \<Rightarrow> channel_stat list \<Rightarrow>
   active_channel list \<times> dead_channel list \<times> declining_channel list \<Rightarrow>
   active_channel list \<times> dead_channel list \<times> declining_channel list" where
  "categorize avg_messages days [] buckets = buckets"
| "categorize avg_messages days (channel # rest)
     (active_channels, dead_channels, declining_channels) =
     (let channel_id = cs_channel_id channel;
          message_count = cs_message_count channel;
          unique_users = cs_unique_users channel
      in if of_int message_count \<ge> avg_messages \<and> message_count > 10
         then categorize avg_messages days rest
                (active_channels @
                   [\<lparr>ac_id = channel_id, ac_messages = message_count, ac_users = unique_users,
                     ac_engagement =
                       (if message_count > 0
                        then py_round1 (of_int unique_users / of_int message_count * 100)
                        else 0)\<rparr>],
                 dead_channels, declining_channels)
         else if message_count = 0
         then categorize avg_messages days rest
                (active_channels,
                 dead_channels @
                   [\<lparr>dc_id = channel_id, dc_messages = 0, dc_days_inactive = days,
                     dc_last_activity = ''No recent activity''\<rparr>],
                 declining_channels)
         else if of_int message_count < avg_messages * 0.3
         then (let decline_pct =
                     (if avg_messages > 0
                      then (avg_messages - of_int message_count) / avg_messages * 100
                      else 0)
               in categorize avg_messages days rest
                    (active_channels, dead_channels,
                     declining_channels @
                       [\<lparr>dl_id = channel_id, dl_messages = message_count,
                         dl_decline_pct = decline_pct, dl_users = unique_users\<rparr>]))
         else categorize avg_messages days rest
                (active_channels, dead_channels, declining_channels))"

definition no_channels :: channel_analysis where
  "no_channels = \<lparr>active = [], dead = [], declining = []\<rparr>"

text \<open>
  \<open>analyze_channels\<close>: the body is inside \<open>try\<close>, and the only statement of it that
  can raise is the query (every division is guarded).
\<close>

definition analyze_channels :: "db_manager \<Rightarrow> int \<Rightarrow> int \<Rightarrow> channel_analysis" where
  "analyze_channels db guild_id days =
     (case get_channel_stats db guild_id days of
        Inl e \<Rightarrow> no_channels
      | Inr channel_stats \<Rightarrow>
          if channel_stats = [] then no_channels
          else (let total_messages = sum_list (map cs_message_count channel_stats);
                    avg_messages =
                      (if channel_stats \<noteq> []
                       then of_int total_messages / of_nat (length channel_stats) else 0)
                in case categorize avg_messages days channel_stats ([], [], []) of
                     (active_channels, dead_channels, declining_channels) \<Rightarrow>
                       \<lparr>active = take 10 (sort_key_reverse ac_messages active_channels),
                        dead = take 10 dead_channels,
                        declining =
                          take 10 (sort_key_reverse dl_decline_pct declining_channels)\<rparr>))"

section \<open>The contributor analyzer (\<open>analytics/contributor_analyzer.py\<close>)\<close>

definition day :: int where
  "day = 86400000000"

text \<open>
  \<open>_calculate_consistency\<close>: \<open>timedelta.days\<close> is the difference in whole days,
  rounded down. A timestamp string that \<open>fromisoformat\<close> rejects raises inside the
  \<open>try\<close>, whose handler returns the same 50.0 as a missing timestamp, so \<open>None\<close>
  stands for both.
\<close>

definition calculate_consistency :: "user_stat \<Rightarrow> real" where
  "calculate_consistency user =
     (case (us_first_message user, us_last_message user) of
        (Some first_message, Some last_message) \<Rightarrow>
          (let time_span = (last_message - first_message) div day
           in if time_span \<ge> 14 then 100
              else if time_span \<ge> 7 then 80
              else if time_span \<ge> 3 then 60
              else if time_span \<ge> 1 then 40
              else 20)
      | _ \<Rightarrow> 50)"

definition calculate_engagement_rate :: "user_stat \<Rightarrow> real" where
  "calculate_engagement_rate user =
     (let messages = us_message_count user; channels = us_channels_used user
      in if channels = 0 then 0
         else (let avg_messages_per_channel = of_int messages / (of_int channels :: real)
               in if avg_messages_per_channel \<ge> 10 then 100
                  else if avg_messages_per_channel \<ge> 5 then 80
                  else if avg_messages_per_channel \<ge> 2 then 60
                  else if avg_messages_per_channel \<ge> 1 then 40
                  else 20))"

text \<open>
  \<open>_calculate_contributor_score\<close>, its first two blocks named. Both divisions are
  guarded, so the handler that returns 0.0 is never reached.
\<close>

definition message_score :: "user_stat \<Rightarrow> user_stat list \<Rightarrow> real" where
  "message_score user all_users =
     (let messages = us_message_count user;
          max_messages =
            (if all_users \<noteq> [] then Max (set (map us_message_count all_users)) else 1)
      in if max_messages > 0
         then min 40 ((of_int messages / of_int max_messages) * 40) else 0)"

definition channel_score :: "user_stat \<Rightarrow> user_stat list \<Rightarrow> real" where
  "channel_score user all_users =
     (let channels_used = us_channels_used user;
          max_channels =
            (if all_users \<noteq> [] then Max (set (map us_channels_used all_users)) else 1)
      in if max_channels > 0
         then min 30 ((of_int channels_used / of_int max_channels) * 30) else 0)"

definition calculate_contributor_score :: "user_stat \<Rightarrow> user_stat list \<Rightarrow> real" where
  "calculate_contributor_score user all_users =
     (let consistency_score = calculate_consistency user * 0.2;
          engagement_score = calculate_engagement_rate user * 0.1;
          total_score = message_score user all_users + channel_score user all_users +
                        consistency_score + engagement_score
      in py_round1 total_score)"

record contributor =
  c_user_id :: int
  c_score :: real
  c_messages :: int
  c_channels_used :: int
  c_engagement :: real
  c_consistency :: real
  c_first_message :: "int option"
  c_last_message :: "int option"

definition contributor_of :: "user_stat list \<Rightarrow> user_stat \<Rightarrow> contributor" where
  "contributor_of user_stats user =
     (let score = calculate_contributor_score user user_stats;
          engagement = calculate_engagement_rate user
      in \<lparr>c_user_id = us_user_id user, c_score = score, c_messages = us_message_count user,
          c_channels_used = us_channels_used user, c_engagement = engagement,
          c_consistency = calculate_consistency user,
          c_first_message = us_first_message user,
          c_last_message = us_last_message user\<rparr>)"

definition get_top_contributors :: "db_manager \<Rightarrow> int \<Rightarrow> int \<Rightarrow> contributor list" where
  "get_top_contributors db guild_id days =
     (case get_user_stats db guild_id days of
        Inl e \<Rightarrow> []
      | Inr user_stats \<Rightarrow>
          if user_stats = [] then []
          else (let contributors = map (contributor_of user_stats) user_stats
                in take 20 (sort_key_reverse c_score contributors)))"

datatype potential = High | Medium

record rising_star =
  rs_user_id :: int
  rs_messages :: int
  rs_messages_per_day :: real
  rs_channels_used :: int
  rs_potential :: potential

text \<open>
  The loop of \<open>identify_rising_stars\<close>; \<open>messages / days\<close> raises when \<open>days\<close> is
  zero, which the caller's handler turns into the empty list.
\<close>

fun rising_loop :: "int \<Rightarrow> contributor list \<Rightarrow> rising_star list \<Rightarrow> py_error + rising_star list" where
  "rising_loop days [] rising_stars = Inr rising_stars"
| "rising_loop days (contributor # rest) rising_stars =
     (if days = 0 then Inl ZeroDivisionError
      else (let messages_per_day = of_int (c_messages contributor) / (of_int days :: real)
            in if messages_per_day \<ge> 2 \<and> c_channels_used contributor \<ge> 2
               then rising_loop days rest
                      (rising_stars @
                         [\<lparr>rs_user_id = c_user_id contributor,
                           rs_messages = c_messages contributor,
                           rs_messages_per_day = py_round1 messages_per_day,
                           rs_channels_used = c_channels_used contributor,
                           rs_potential = (if messages_per_day \<ge> 5 then High else Medium)\<rparr>])
               else rising_loop days rest rising_stars))"

definition identify_rising_stars :: "db_manager \<Rightarrow> int \<Rightarrow> int \<Rightarrow> rising_star list" where
  "identify_rising_stars db guild_id days =
     (let recent_contributors = get_top_contributors db guild_id days
      in case rising_loop days recent_contributors [] of
           Inl e \<Rightarrow> []
         | Inr rising_stars \<Rightarrow> take 10 (sort_key_reverse rs_messages_per_day rising_stars))"

section \<open>The health analyzer of \<open>analytics/health_analyzer.py\<close>\<close>

text \<open>
  The second \<open>HealthAnalyzer\<close>, the one the bot imports. Its names carry the prefix
  \<open>analytics_\<close> here. Each public method is one \<open>try\<close> block whose handler returns a
  fixed default.
\<close>

definition get_previous_period_stats :: "int \<Rightarrow> int \<Rightarrow> (string \<rightharpoonup> int)" where
  "get_previous_period_stats guild_id days = [''total_messages'' \<mapsto> 0]"

datatype pulse_warning = Limited_data_available | Error_retrieving_data

record analytics_pulse =
  ap_trend :: real
  ap_active_members :: int
  ap_total_members :: int
  ap_total_messages :: int
  ap_peak_hours :: "int list"
  ap_quiet_channels :: "int list"
  ap_low_confidence :: bool
  ap_confidence_warning :: "pulse_warning option"

text \<open>\<open>[int(hour) for hour, count in ...]\<close>: the first text that is no number raises.\<close>

fun int_hours :: "(int option \<times> int) list \<Rightarrow> py_error + int list" where
  "int_hours [] = Inr []"
| "int_hours ((hour, count) # rest) =
     (case hour of
        None \<Rightarrow> Inl ValueError
      | Some h \<Rightarrow> then_do (int_hours rest) (\<lambda>hs. Inr (h # hs)))"

definition pulse_body :: "db_manager \<Rightarrow> int \<Rightarrow> int \<Rightarrow> py_error + analytics_pulse" where
  "pulse_body db guild_id days =
     then_do (get_message_stats db guild_id days) (\<lambda>current_stats.
     let previous_stats = get_previous_period_stats guild_id days;
         current_messages = ms_total_messages current_stats;
         previous_messages =
           (case previous_stats ''total_messages'' of Some v \<Rightarrow> v | None \<Rightarrow> 0);
         trend =
           (if previous_messages > 0
            then (of_int (current_messages - previous_messages) / of_int previous_messages)
                   * 100
            else 0)
     in then_do (if ms_hourly_data current_stats \<noteq> []
                 then int_hours (take 3 (ms_hourly_data current_stats)) else Inr [])
          (\<lambda>peak_hours.
     then_do (get_channel_stats db guild_id days) (\<lambda>channel_stats.
     let quiet_channels =
           map cs_channel_id (drop (length channel_stats - 3) channel_stats)
     in Inr \<lparr>ap_trend = trend,
             ap_active_members = ms_active_users current_stats,
             ap_total_members = ms_active_users current_stats,
             ap_total_messages = current_messages,
             ap_peak_hours = peak_hours,
             ap_quiet_channels = quiet_channels,
             ap_low_confidence = (current_messages < 10),
             ap_confidence_warning =
               (if current_messages < 10 then Some Limited_data_available else None)\<rparr>)))"

definition pulse_default :: analytics_pulse where
  "pulse_default =
     \<lparr>ap_trend = 0, ap_active_members = 0, ap_total_members = 0, ap_total_messages = 0,
      ap_peak_hours = [], ap_quiet_channels = [], ap_low_confidence = True,
      ap_confidence_warning = Some Error_retrieving_data\<rparr>"

definition analytics_get_pulse :: "db_manager \<Rightarrow> int \<Rightarrow> int \<Rightarrow> analytics_pulse" where
  "analytics_get_pulse db guild_id days =
     (case pulse_body db guild_id days of Inl e \<Rightarrow> pulse_default | Inr result \<Rightarrow> result)"

definition calculate_activity_score :: "message_stats \<Rightarrow> int" where
  "calculate_activity_score stats =
     (let total_messages = ms_total_messages stats;
          messages_per_day = (of_int total_messages / 7 :: real)
      in if messages_per_day \<ge> 100 then 100
         else if messages_per_day \<ge> 50 then 80
         else if messages_per_day \<ge> 20 then 60
         else if messages_per_day \<ge> 5 then 40
         else if messages_per_day \<ge> 1 then 20
         else 0)"

definition calculate_engagement_score :: "user_stat list \<Rightarrow> int" where
  "calculate_engagement_score user_stats =
     (if user_stats = [] then 0
      else (let active_users = length user_stats;
                total_messages = sum_list (map us_message_count user_stats);
                avg_messages_per_user =
                  (if active_users > 0
                   then of_int total_messages / of_nat active_users else 0 :: real)
            in if avg_messages_per_user \<ge> 20 then 100
               else if avg_messages_per_user \<ge> 10 then 80
               else if avg_messages_per_user \<ge> 5 then 60
               else if avg_messages_per_user \<ge> 2 then 40
               else if avg_messages_per_user \<ge> 1 then 20
               else 0))"

definition calculate_diversity_score :: "channel_stat list \<Rightarrow> int" where
  "calculate_diversity_score channel_stats =
     (if channel_stats = [] then 0
      else (let active_channels = length channel_stats
            in if active_channels \<ge> 10 then 100
               else if active_channels \<ge> 7 then 80
               else if active_channels \<ge> 5 then 60
               else if active_channels \<ge> 3 then 40
               else if active_channels \<ge> 1 then 20
               else 0))"

definition calculate_consistency_score :: "message_stats \<Rightarrow> int" where
  "calculate_consistency_score stats =
     (let hourly_data = ms_hourly_data stats
      in if hourly_data = [] then 0
         else (let total_messages = sum_list (map snd hourly_data)
               in if total_messages = 0 then 0
                  else (let active_hours = length hourly_data
                        in if active_hours \<ge> 12 then 100
                           else if active_hours \<ge> 8 then 80
                           else if active_hours \<ge> 6 then 60
                           else if active_hours \<ge> 4 then 40
                           else if active_hours \<ge> 2 then 20
                           else 0)))"

definition generate_recommendations :: "int \<Rightarrow> int \<Rightarrow> int \<Rightarrow> int \<Rightarrow> string list" where
  "generate_recommendations activity engagement diversity consistency =
     (let recommendations =
            (if activity < 50
             then [''Increase overall activity with events and discussions''] else []) @
            (if engagement < 50
             then [''Encourage more user participation with interactive content'']
             else []) @
            (if diversity < 50 then [''Create more topic-specific channels''] else []) @
            (if consistency < 50
             then [''Promote activity during different time zones''] else [])
      in if recommendations = []
         then [''Great job! Keep maintaining your current engagement strategies'']
         else recommendations)"

text \<open>\<open>int(x)\<close> of a float drops the fraction, towards zero.\<close>

definition py_int :: "real \<Rightarrow> int" where
  "py_int x = (if 0 \<le> x then \<lfloor>x\<rfloor> else \<lceil>x\<rceil>)"

record analytics_report =
  ar_score :: int
  ar_summary :: string
  ar_metrics :: "(string \<times> int) list"
  ar_recommendations :: "string list"

definition health_body :: "db_manager \<Rightarrow> int \<Rightarrow> py_error + analytics_report" where
  "health_body db guild_id =
     then_do (get_message_stats db guild_id 7) (\<lambda>stats.
     then_do (get_channel_stats db guild_id 7) (\<lambda>channel_stats.
     then_do (get_user_stats db guild_id 30) (\<lambda>user_stats.
     let activity_score = calculate_activity_score stats;
         engagement_score = calculate_engagement_score user_stats;
         diversity_score = calculate_diversity_score channel_stats;
         consistency_score = calculate_consistency_score stats;
         overall_score =
           py_int (of_int activity_score * 0.3 + of_int engagement_score * 0.3 +
                   of_int diversity_score * 0.2 + of_int consistency_score * 0.2);
         summary_text =
           (if overall_score \<ge> 80
            then ''Excellent! Your server is thriving with high activity and engagement.''
            else if overall_score \<ge> 60
            then ''Good health! Some areas could use improvement.''
            else if overall_score \<ge> 40
            then ''Moderate health. Consider implementing engagement strategies.''
            else ''Needs attention. Low activity detected.'')
     in Inr \<lparr>ar_score = overall_score, ar_summary = summary_text,
             ar_metrics = [(''Activity'', activity_score), (''Engagement'', engagement_score),
                           (''Diversity'', diversity_score),
                           (''Consistency'', consistency_score)],
             ar_recommendations =
               generate_recommendations activity_score engagement_score diversity_score
                 consistency_score\<rparr>)))"

definition health_default :: analytics_report where
  "health_default =
     \<lparr>ar_score = 0, ar_summary = ''Unable to calculate health score'', ar_metrics = [],
      ar_recommendations = [''Check bot permissions and try again'']\<rparr>"

definition analytics_calculate_health_score :: "db_manager \<Rightarrow> int \<Rightarrow> analytics_report" where
  "analytics_calculate_health_score db guild_id =
     (case health_body db guild_id of Inl e \<Rightarrow> health_default | Inr result \<Rightarrow> result)"

text \<open>
  \<open>generate_suggestions\<close> of this class only reads the score of
  \<open>calculate_health_score\<close>, which has already handled every failure; its own handler
  is never reached. A suggestion is its title and its description.
\<close>

definition analytics_generate_suggestions :: "db_manager \<Rightarrow> int \<Rightarrow> (string \<times> string) list" where
  "analytics_generate_suggestions db guild_id =
     (let health_data = analytics_calculate_health_score db guild_id;
          report_score = ar_score health_data
      in if report_score < 40
         then [(''Boost Activity'',
                ''Consider hosting events or creating discussion topics to increase engagement''),
               (''Welcome New Members'',
                ''Set up a welcoming system to help new members feel included'')]
         else if report_score < 70
         then [(''Diversify Channels'',
                ''Create topic-specific channels to encourage different types of discussions''),
               (''Regular Events'',
                ''Schedule weekly events or activities to maintain consistent engagement'')]
         else [(''Maintain Momentum'',
                ''Your server is doing great! Keep up the current strategies''),
               (''Community Recognition'',
                ''Consider highlighting active members to encourage continued participation'')])"

section \<open>The buckets of the channel analyzer, condition by condition\<close>





definition active_entry :: "channel_stat \<Rightarrow> active_channel" where
  "active_entry channel =
     \<lparr>ac_id = cs_channel_id channel, ac_messages = cs_message_count channel,
      ac_users = cs_unique_users channel,
      ac_engagement =
        (if cs_message_count channel > 0
         then py_round1 (of_int (cs_unique_users channel) /
                         of_int (cs_message_count channel) * 100)
         else 0)\<rparr>"

definition dead_entry :: "int \<Rightarrow> channel_stat \<Rightarrow> dead_channel" where
  "dead_entry days channel =
     \<lparr>dc_id = cs_channel_id channel, dc_messages = 0, dc_days_inactive = days,
      dc_last_activity = ''No recent activity''\<rparr>"

definition declining_entry :: "real \<Rightarrow> channel_stat \<Rightarrow> declining_channel" where
  "declining_entry avg channel =
     \<lparr>dl_id = cs_channel_id channel, dl_messages = cs_message_count channel,
      dl_decline_pct =
        (if avg > 0 then (avg - of_int (cs_message_count channel)) / avg * 100 else 0),
      dl_users = cs_unique_users channel\<rparr>"

section \<open>Test data\<close>

text \<open>
  A provider that answers every query with the same values whatever the guild and the
  window, except that the 7-day and the 30-day active users may differ; and one whose
  every query raises. The same for the database manager.
\<close>

definition fixed_provider ::
  "int \<Rightarrow> int \<Rightarrow> int \<Rightarrow> real \<Rightarrow> join_leave_stats \<Rightarrow> channel_row list \<Rightarrow> int list \<Rightarrow>
   stats_provider" where
  "fixed_provider messages users_30d users_7d trend join_leave channel_activity peak_hours =
     \<lparr>get_message_count = (\<lambda>guild_id days. Inr messages),
      get_active_users = (\<lambda>guild_id days. Inr (if days = 7 then users_7d else users_30d)),
      get_activity_trend = (\<lambda>guild_id days. Inr trend),
      get_peak_hours = (\<lambda>guild_id days. Inr peak_hours),
      get_quiet_channels = (\<lambda>guild_id days. Inr []),
      get_join_leave_stats = (\<lambda>guild_id days. Inr join_leave),
      get_channel_activity = (\<lambda>guild_id days. Inr channel_activity)\<rparr>"

definition failing_provider :: stats_provider where
  "failing_provider =
     \<lparr>get_message_count = (\<lambda>guild_id days. Inl QueryError),
      get_active_users = (\<lambda>guild_id days. Inl QueryError),
      get_activity_trend = (\<lambda>guild_id days. Inl QueryError),
      get_peak_hours = (\<lambda>guild_id days. Inl QueryError),
      get_quiet_channels = (\<lambda>guild_id days. Inl QueryError),
      get_join_leave_stats = (\<lambda>guild_id days. Inl QueryError),
      get_channel_activity = (\<lambda>guild_id days. Inl QueryError)\<rparr>"

definition fixed_manager ::
  "message_stats \<Rightarrow> channel_stat list \<Rightarrow> user_stat list \<Rightarrow> db_manager" where
  "fixed_manager stats channel_stats user_stats =
     \<lparr>get_message_stats = (\<lambda>guild_id days. Inr stats),
      get_channel_stats = (\<lambda>guild_id days. Inr channel_stats),
      get_user_stats = (\<lambda>guild_id days. Inr user_stats)\<rparr>"

definition failing_manager :: db_manager where
  "failing_manager =
     \<lparr>get_message_stats = (\<lambda>guild_id days. Inl QueryError),
      get_channel_stats = (\<lambda>guild_id days. Inl QueryError),
      get_user_stats = (\<lambda>guild_id days. Inl QueryError)\<rparr>"

definition no_messages :: message_stats where
  "no_messages = \<lparr>ms_total_messages = 0, ms_active_users = 0, ms_hourly_data = []\<rparr>"

definition busy_week :: message_stats where
  "busy_week =
     \<lparr>ms_total_messages = 70, ms_active_users = 5,
      ms_hourly_data = [(Some 14, 40), (Some 9, 30)]\<rparr>"

definition no_joins :: join_leave_stats where
  "no_joins = \<lparr>joins = 0, leaves = 0, retention_rate = 0\<rparr>"

definition leaky_joins :: join_leave_stats where
  "leaky_joins = \<lparr>joins = 11, leaves = 0, retention_rate = 50\<rparr>"

definition four_quiet :: "channel_row list" where
  "four_quiet =
     [\<lparr>ca_channel_id = 1, ca_message_count = 0\<rparr>, \<lparr>ca_channel_id = 2, ca_message_count = 1\<rparr>,
      \<lparr>ca_channel_id = 3, ca_message_count = 2\<rparr>, \<lparr>ca_channel_id = 4, ca_message_count = 4\<rparr>]"

definition one_busy :: "channel_row list" where
  "one_busy =
     [\<lparr>ca_channel_id = 1, ca_message_count = 0\<rparr>, \<lparr>ca_channel_id = 2, ca_message_count = 500\<rparr>,
      \<lparr>ca_channel_id = 3, ca_message_count = 0\<rparr>]"

definition steady_user :: user_stat where
  "steady_user =
     \<lparr>us_user_id = 1, us_message_count = 50, us_channels_used = 5,
      us_first_message = Some 0, us_last_message = Some (10 * day)\<rparr>"




definition busy_user :: "int \<Rightarrow> user_stat" where
  "busy_user i =
     \<lparr>us_user_id = i, us_message_count = 100, us_channels_used = 1,
      us_first_message = None, us_last_message = None\<rparr>"

definition newcomer :: user_stat where
  "newcomer =
     \<lparr>us_user_id = 21, us_message_count = 28, us_channels_used = 2,
      us_first_message = None, us_last_message = None\<rparr>"

definition crowd :: "user_stat list" where
  "crowd = map busy_user [1, 2, 3, 4, 5, 6, 7, 8, 9, 10, 11, 12, 13, 14, 15, 16, 17, 18, 19, 20]
             @ [newcomer]"

section \<open>Properties\<close>

subsection \<open>Rounding\<close>

lemma py_round_of_int [simp]: "py_round (of_int n) = n"
  by (simp add: py_round_def)

lemma py_round_numeral [simp]: "py_round (numeral n) = numeral n"
  using py_round_of_int [of "numeral n"] by simp

lemma py_round_zero [simp]: "py_round 0 = 0"
  using py_round_of_int [of 0] by simp

subsection \<open>Confidence\<close>




subsection \<open>Sequencing\<close>

lemma then_do_Inr [simp]: "then_do (Inr v) f = f v"
  by (simp add: then_do_def)

lemma then_do_Inl [simp]: "then_do (Inl e) f = Inl e"
  by (simp add: then_do_def)

lemma then_do_eq_Inr: "then_do m f = Inr r \<longleftrightarrow> (\<exists>v. m = Inr v \<and> f v = Inr r)"
  by (cases m) simp_all

lemma calculate_confidence_30 [simp]:
  "calculate_confidence m 30 = Inr (min 1 (of_int m / 300))"
  by (simp add: calculate_confidence_def)

subsection \<open>The stubbed trend of the analytics pulse\<close>

text \<open>
  C7. In \<open>analytics/health_analyzer.py\<close> the previous period's total is the constant
  zero, so the pulse reports the trend 0 for every guild and every window: when the
  queries succeed because the comparison \<open>previous_messages > 0\<close> is false, and when one
  fails because the default says so.
\<close>

theorem analytics_get_pulse_trend_zero:
  "get_previous_period_stats guild_id days ''total_messages'' = Some 0 \<and>
   ap_trend (analytics_get_pulse db guild_id days) = 0"
  by (auto simp: analytics_get_pulse_def pulse_body_def pulse_default_def then_do_def
      get_previous_period_stats_def Let_def split: sum.splits)

theorem analytics_get_pulse_trend_zero_witness:
  "ap_trend (analytics_get_pulse (fixed_manager busy_week [] []) 1 7) = 0 \<and>
   ap_total_messages (analytics_get_pulse (fixed_manager busy_week [] []) 1 7) = 70 \<and>
   ap_peak_hours (analytics_get_pulse (fixed_manager busy_week [] []) 1 7) = [14, 9]"
proof -
  have t: "ap_trend (analytics_get_pulse (fixed_manager busy_week [] []) 1 7) = 0"
    using analytics_get_pulse_trend_zero [of 1 7 "fixed_manager busy_week [] []"]
    by blast
  have "ap_total_messages (analytics_get_pulse (fixed_manager busy_week [] []) 1 7) = 70 \<and>
    ap_peak_hours (analytics_get_pulse (fixed_manager busy_week [] []) 1 7) = [14, 9]"
    by (simp add: analytics_get_pulse_def pulse_body_def fixed_manager_def busy_week_def
        get_previous_period_stats_def)
  with t show ?thesis by blast
qed

subsection \<open>The contributor score of the scenario\<close>

text \<open>
  C5. A user with 50 messages in 5 channels whose first and last message are 10 whole
  days apart, in a cohort whose largest message count is 50 and largest channel count is
  5, scores 40 for messages, 30 for channels, 16 for consistency and 10 for engagement:
  96.0 in all.
\<close>

theorem contributor_score_scenario:
  assumes "user \<in> set all_users"
    and "us_message_count user = 50" and "us_channels_used user = 5"
    and "us_first_message user = Some t0" and "us_last_message user = Some t1"
    and "(t1 - t0) div day = 10"
    and "Max (set (map us_message_count all_users)) = 50"
    and "Max (set (map us_channels_used all_users)) = 5"
  shows "message_score user all_users = 40 \<and> channel_score user all_users = 30 \<and>
    calculate_consistency user * 0.2 = 16 \<and> calculate_engagement_rate user * 0.1 = 10 \<and>
    calculate_contributor_score user all_users = 96"
proof -
  from assms(1) have ne: "all_users \<noteq> []" by auto
  have m: "message_score user all_users = 40"
    using assms ne by (simp add: message_score_def)
  have c: "channel_score user all_users = 30"
    using assms ne by (simp add: channel_score_def)
  have k: "calculate_consistency user = 80"
    using assms by (simp add: calculate_consistency_def)
  have e: "calculate_engagement_rate user = 100"
    using assms by (simp add: calculate_engagement_rate_def)
  show ?thesis
    by (simp add: calculate_contributor_score_def m c k e py_round1_def)
qed

theorem contributor_score_scenario_witness:
  "steady_user \<in> set [steady_user] \<and> calculate_contributor_score steady_user [steady_user] = 96 \<and>
   map c_score (get_top_contributors (fixed_manager no_messages [] [steady_user]) 1 30) = [96]"
proof -
  have s: "calculate_contributor_score steady_user [steady_user] = 96"
    using contributor_score_scenario [of steady_user "[steady_user]" 0 "10 * day"]
    by (simp add: steady_user_def day_def)
  show ?thesis
    by (simp add: s get_top_contributors_def fixed_manager_def contributor_of_def
        sort_key_reverse_def)
qed

subsection \<open>The suggestion rules\<close>

lemma suggestion_rules_at_most_four: "length (suggestion_rules trend ca jl ph) \<le> 4"
  by (simp add: suggestion_rules_def Let_def split: list.splits)

lemma suggestion_rules_at_least_one: "1 \<le> length (suggestion_rules trend ca jl ph)"
  by (simp add: suggestion_rules_def Let_def split: list.splits)

lemma suggestion_rules_exclusive:
  "\<not> (Activity_decline a \<in> set (suggestion_rules trend ca jl ph) \<and>
      Capitalize_on_growth b \<in> set (suggestion_rules trend ca jl ph))"
  by (auto simp: suggestion_rules_def Let_def split: list.splits if_splits)

lemma generate_suggestions_Inr:
  "generate_suggestions db guild_id = Inr s \<Longrightarrow>
   \<exists>trend ca jl ph. s = suggestion_rules trend ca jl ph"
  unfolding generate_suggestions_def then_do_eq_Inr by auto

text \<open>
  C6 (as the code has it). Rule 1 asks \<open>trend < -15\<close> and rule 5 asks \<open>trend > 25\<close>
  of the same number, so they never fire together: a result holds between one and four
  suggestions, never a decline and a growth suggestion at once. Rules 1 to 4 can fire
  together, and so can rules 2 to 5, in the listed order.
\<close>

theorem generate_suggestions_at_most_four:
  "(generate_suggestions db guild_id = Inr s \<longrightarrow>
      1 \<le> length s \<and> length s \<le> 4 \<and>
      \<not> (Activity_decline a \<in> set s \<and> Capitalize_on_growth b \<in> set s)) \<and>
   generate_suggestions (fixed_provider 0 0 0 (- 20) leaky_joins four_quiet [14]) 1 =
     Inr [Activity_decline 20, Consolidate_channels 4, Improve_onboarding 50,
          Optimize_event_timing 14] \<and>
   generate_suggestions (fixed_provider 0 0 0 30 leaky_joins four_quiet [14]) 1 =
     Inr [Consolidate_channels 4, Improve_onboarding 50, Optimize_event_timing 14,
          Capitalize_on_growth 30]"
proof -
  have a: "generate_suggestions db guild_id = Inr s \<longrightarrow>
      1 \<le> length s \<and> length s \<le> 4 \<and>
      \<not> (Activity_decline a \<in> set s \<and> Capitalize_on_growth b \<in> set s)"
  proof
    assume "generate_suggestions db guild_id = Inr s"
    then obtain t ca jl ph where "s = suggestion_rules t ca jl ph"
      using generate_suggestions_Inr by blast
    then show "1 \<le> length s \<and> length s \<le> 4 \<and>
      \<not> (Activity_decline a \<in> set s \<and> Capitalize_on_growth b \<in> set s)"
      using suggestion_rules_at_most_four [of t ca jl ph]
        suggestion_rules_at_least_one [of t ca jl ph]
        suggestion_rules_exclusive [of a t ca jl ph b] by simp
  qed
  have b: "generate_suggestions (fixed_provider 0 0 0 (- 20) leaky_joins four_quiet [14]) 1 =
     Inr [Activity_decline 20, Consolidate_channels 4, Improve_onboarding 50,
          Optimize_event_timing 14]"
    by (simp add: generate_suggestions_def fixed_provider_def suggestion_rules_def
        four_quiet_def leaky_joins_def)
  have c: "generate_suggestions (fixed_provider 0 0 0 30 leaky_joins four_quiet [14]) 1 =
     Inr [Consolidate_channels 4, Improve_onboarding 50, Optimize_event_timing 14,
          Capitalize_on_growth 30]"
    by (simp add: generate_suggestions_def fixed_provider_def suggestion_rules_def
        four_quiet_def leaky_joins_def)
  from a b c show ?thesis by blast
qed

theorem generate_suggestions_at_most_four_witness:
  "generate_suggestions (fixed_provider 0 0 0 (- 20) leaky_joins four_quiet [14]) 1 =
     Inr [Activity_decline 20, Consolidate_channels 4, Improve_onboarding 50,
          Optimize_event_timing 14] \<and>
   length [Activity_decline 20, Consolidate_channels 4, Improve_onboarding 50,
          Optimize_event_timing 14] \<le> 4"
  using generate_suggestions_at_most_four
    [of "fixed_provider 0 0 0 (- 20) leaky_joins four_quiet [14]" 1
        "[Activity_decline 20, Consolidate_channels 4, Improve_onboarding 50,
          Optimize_event_timing 14]" 20 30]
  by simp

text \<open>
  C6 (as stated) fails: no provider makes \<open>generate_suggestions\<close> return the five
  rule suggestions in one result.
\<close>

theorem generate_suggestions_all_five_counterexample:
  "\<not> (\<exists>db guild_id a n r h b. generate_suggestions db guild_id =
        Inr [Activity_decline a, Consolidate_channels n, Improve_onboarding r,
             Optimize_event_timing h, Capitalize_on_growth b])"
proof
  assume "\<exists>db guild_id a n r h b. generate_suggestions db guild_id =
    Inr [Activity_decline a, Consolidate_channels n, Improve_onboarding r,
         Optimize_event_timing h, Capitalize_on_growth b]"
  then obtain db guild_id a n r h b where g: "generate_suggestions db guild_id =
    Inr [Activity_decline a, Consolidate_channels n, Improve_onboarding r,
         Optimize_event_timing h, Capitalize_on_growth b]"
    by blast
  from generate_suggestions_Inr [OF g] obtain t ca jl ph where
    e: "[Activity_decline a, Consolidate_channels n, Improve_onboarding r,
      Optimize_event_timing h, Capitalize_on_growth b] = suggestion_rules t ca jl ph"
    by blast
  have "length [Activity_decline a, Consolidate_channels n, Improve_onboarding r,
      Optimize_event_timing h, Capitalize_on_growth b] = 5" by simp
  with e have "length (suggestion_rules t ca jl ph) = 5" by simp
  with suggestion_rules_at_most_four [of t ca jl ph] show False by simp
qed

subsection \<open>Activity concentrated in one channel\<close>

lemma entropy_loop_concentrated:
  "\<forall>ch\<in>set chans. ca_message_count ch > 0 \<longrightarrow> ca_message_count ch = total_msgs \<Longrightarrow>
   entropy_loop total_msgs chans e = Inr e"
  by (induction chans arbitrary: e) auto

lemma sum_list_no_nonzero:
  "filter (\<lambda>x. f x \<noteq> (0::int)) xs = [] \<Longrightarrow> sum_list (map f xs) = 0"
  by (induction xs) (auto split: if_splits)

lemma single_nonzero_is_total:
  "length (filter (\<lambda>x. f x \<noteq> (0::int)) xs) = 1 \<Longrightarrow> x \<in> set xs \<Longrightarrow> f x \<noteq> 0 \<Longrightarrow>
   f x = sum_list (map f xs)"
proof (induction xs)
  case Nil
  then show ?case by simp
next
  case (Cons y ys)
  show ?case
  proof (cases "f y = 0")
    case True
    with Cons show ?thesis by auto
  next
    case False
    with Cons.prems have e: "filter (\<lambda>x. f x \<noteq> 0) ys = []" by simp
    then have s: "sum_list (map f ys) = 0" by (rule sum_list_no_nonzero)
    from e have "\<forall>z\<in>set ys. f z = 0" by (simp add: filter_empty_conv)
    with Cons.prems False have "x = y" by auto
    with s show ?thesis by simp
  qed
qed

lemma channel_health_score_concentrated:
  assumes "length (filter (\<lambda>ch. ca_message_count ch \<noteq> 0) channel_activity) = 1"
  shows "channel_health_score channel_activity = Inr 0"
proof -
  from assms have ne: "channel_activity \<noteq> []" by auto
  have "\<forall>ch\<in>set channel_activity. ca_message_count ch > 0 \<longrightarrow>
          ca_message_count ch = sum_list (map ca_message_count channel_activity)"
    using single_nonzero_is_total [OF assms] by auto
  then have "entropy_loop (sum_list (map ca_message_count channel_activity))
               channel_activity 0 = Inr 0"
    by (rule entropy_loop_concentrated)
  then show ?thesis using ne
    by (simp add: channel_health_score_def Let_def)
qed

subsection \<open>What a health report holds\<close>

lemma calculate_health_score_Inr:
  assumes "calculate_health_score db guild_id = Inr r"
  shows "\<exists>m u30 u7 t jl ca ch.
     get_message_count db guild_id 30 = Inr m \<and> get_active_users db guild_id 30 = Inr u30 \<and>
     get_active_users db guild_id 7 = Inr u7 \<and> get_activity_trend db guild_id 7 = Inr t \<and>
     get_join_leave_stats db guild_id 30 = Inr jl \<and>
     get_channel_activity db guild_id 30 = Inr ca \<and> channel_health_score ca = Inr ch \<and>
     score r = py_round (activity_score m u30 * 0.35 + growth_score t jl * 0.25 +
                         engagement_score u7 u30 * 0.25 + ch * 0.15) \<and>
     metrics r = [(Activity, py_round (activity_score m u30)),
                  (Growth, py_round (growth_score t jl)),
                  (Engagement, py_round (engagement_score u7 u30)),
                  (Channel_Health, py_round ch)]"
  using assms
  by (auto simp: calculate_health_score_def then_do_eq_Inr Let_def add.assoc)

text \<open>
  C10. When exactly one channel of the channel-activity list has a nonzero message
  count, the Channel Health component is 0, however many channels are listed and however
  large the count is; the report's metric is then 0 as well.
\<close>

theorem channel_health_concentrated:
  assumes "length (filter (\<lambda>ch. ca_message_count ch \<noteq> 0) channel_activity) = 1"
  shows "channel_health_score channel_activity = Inr 0 \<and>
    (get_channel_activity db guild_id 30 = Inr channel_activity \<and>
     calculate_health_score db guild_id = Inr r \<longrightarrow>
       map_of (metrics r) Channel_Health = Some 0)"
proof -
  have z: "channel_health_score channel_activity = Inr 0"
    using assms by (rule channel_health_score_concentrated)
  have "map_of (metrics r) Channel_Health = Some 0"
    if "get_channel_activity db guild_id 30 = Inr channel_activity"
      and "calculate_health_score db guild_id = Inr r"
    using calculate_health_score_Inr [OF that(2)] that(1) z by auto
  with z show ?thesis by blast
qed

theorem channel_health_concentrated_witness:
  "length (filter (\<lambda>ch. ca_message_count ch \<noteq> 0) one_busy) = 1 \<and>
   channel_health_score one_busy = Inr 0 \<and>
   (\<exists>r. calculate_health_score (fixed_provider 500 3 2 0 no_joins one_busy []) 1 = Inr r \<and>
        map_of (metrics r) Channel_Health = Some 0)"
proof -
  have h: "length (filter (\<lambda>ch. ca_message_count ch \<noteq> 0) one_busy) = 1"
    by (simp add: one_busy_def)
  have z: "channel_health_score one_busy = Inr 0"
    using channel_health_concentrated [OF h] by simp
  have "\<exists>r. calculate_health_score (fixed_provider 500 3 2 0 no_joins one_busy []) 1 = Inr r"
    by (simp add: calculate_health_score_def fixed_provider_def z Let_def)
  then obtain r where
    r: "calculate_health_score (fixed_provider 500 3 2 0 no_joins one_busy []) 1 = Inr r"
    by blast
  have "map_of (metrics r) Channel_Health = Some 0"
    using channel_health_concentrated
      [OF h, of "fixed_provider 500 3 2 0 no_joins one_busy []" 1 r] r
    by (simp add: fixed_provider_def)
  with h z r show ?thesis by blast
qed





subsection \<open>The range of the component scores\<close>

lemma activity_score_bounds:
  "0 \<le> m \<Longrightarrow> 0 \<le> activity_score m u \<and> activity_score m u \<le> 100"
  by (simp add: activity_score_def Let_def)

lemma growth_score_bounds: "0 \<le> growth_score t jl \<and> growth_score t jl \<le> 100"
  by (simp add: growth_score_def Let_def)

text \<open>
  C2 fails on the code. Activity and Growth are clamped, Engagement is not: with one
  active user in the 30-day answer and two in the 7-day answer the Engagement score is
  200, and the report's metric with it.
\<close>

theorem engagement_score_unclamped:
  "engagement_score 2 1 = 200 \<and>
   map_sum id metrics (calculate_health_score (fixed_provider 30 1 2 0 no_joins [] []) 1) =
     Inr [(Activity, 20), (Growth, 50), (Engagement, 200), (Channel_Health, 0)]"
  by (simp add: calculate_health_score_def fixed_provider_def Let_def activity_score_def
      growth_score_def engagement_score_def channel_health_score_def no_joins_def)

subsection \<open>A failing query\<close>

lemma get_pulse_Inr:
  "get_pulse db guild_id days = Inr r \<Longrightarrow>
   (\<exists>v. get_message_count db guild_id days = Inr v) \<and>
   (\<exists>v. get_active_users db guild_id days = Inr v) \<and>
   (\<exists>v. get_activity_trend db guild_id days = Inr v) \<and>
   (\<exists>v. get_peak_hours db guild_id days = Inr v) \<and>
   (\<exists>v. get_quiet_channels db guild_id days = Inr v)"
  by (auto simp: get_pulse_def then_do_eq_Inr Let_def)

lemma generate_suggestions_queries:
  "generate_suggestions db guild_id = Inr r \<Longrightarrow>
   (\<exists>v. get_activity_trend db guild_id 7 = Inr v) \<and>
   (\<exists>v. get_channel_activity db guild_id 30 = Inr v) \<and>
   (\<exists>v. get_join_leave_stats db guild_id 30 = Inr v) \<and>
   (\<exists>v. get_peak_hours db guild_id 30 = Inr v)"
  by (auto simp: generate_suggestions_def then_do_eq_Inr)

lemma analyze_channels_failure:
  "get_channel_stats db guild_id days = Inl e \<Longrightarrow> analyze_channels db guild_id days = no_channels"
  by (simp add: analyze_channels_def)

lemma get_top_contributors_failure:
  "get_user_stats db guild_id days = Inl e \<Longrightarrow> get_top_contributors db guild_id days = []"
  by (simp add: get_top_contributors_def)

lemma analytics_get_pulse_failure:
  "get_message_stats db guild_id days = Inl e \<or> get_channel_stats db guild_id days = Inl e \<Longrightarrow>
   analytics_get_pulse db guild_id days = pulse_default"
  by (auto simp: analytics_get_pulse_def pulse_body_def then_do_def Let_def split: sum.splits)

lemma analytics_health_failure:
  "get_message_stats db guild_id 7 = Inl e \<or> get_channel_stats db guild_id 7 = Inl e \<or>
   get_user_stats db guild_id 30 = Inl e \<Longrightarrow>
   analytics_calculate_health_score db guild_id = health_default"
  by (auto simp: analytics_calculate_health_score_def health_body_def then_do_def
      split: sum.splits)

lemma analytics_suggestions_default:
  "analytics_calculate_health_score db guild_id = health_default \<Longrightarrow>
   analytics_generate_suggestions db guild_id =
     [(''Boost Activity'',
       ''Consider hosting events or creating discussion topics to increase engagement''),
      (''Welcome New Members'',
       ''Set up a welcoming system to help new members feel included'')]"
  by (simp add: analytics_generate_suggestions_def health_default_def)

text \<open>
  C3 (as the code has it). \<open>analyze_channels\<close>, \<open>get_top_contributors\<close> and the three
  operations of \<open>analytics/health_analyzer.py\<close> catch a failing query and return their
  fixed default. The three operations of \<open>health_analyzer.py\<close> have no handler: when
  one of their queries fails, they return no result but an exception.
\<close>

theorem query_failure_handling:
  "(get_channel_stats db guild_id days = Inl e \<longrightarrow>
      analyze_channels db guild_id days = no_channels) \<and>
   (get_user_stats db guild_id days = Inl e \<longrightarrow>
      get_top_contributors db guild_id days = []) \<and>
   (get_message_stats db guild_id days = Inl e \<or> get_channel_stats db guild_id days = Inl e \<longrightarrow>
      analytics_get_pulse db guild_id days = pulse_default) \<and>
   (get_message_stats db guild_id 7 = Inl e \<or> get_channel_stats db guild_id 7 = Inl e \<or>
    get_user_stats db guild_id 30 = Inl e \<longrightarrow>
      analytics_calculate_health_score db guild_id = health_default \<and>
      analytics_generate_suggestions db guild_id =
        [(''Boost Activity'',
          ''Consider hosting events or creating discussion topics to increase engagement''),
         (''Welcome New Members'',
          ''Set up a welcoming system to help new members feel included'')]) \<and>
   (get_message_count provider guild_id days = Inl e \<or>
    get_active_users provider guild_id days = Inl e \<or>
    get_activity_trend provider guild_id days = Inl e \<or>
    get_peak_hours provider guild_id days = Inl e \<or>
    get_quiet_channels provider guild_id days = Inl e \<longrightarrow>
      (\<exists>e'. get_pulse provider guild_id days = Inl e')) \<and>
   (get_message_count provider guild_id 30 = Inl e \<or>
    get_active_users provider guild_id 30 = Inl e \<or>
    get_active_users provider guild_id 7 = Inl e \<or>
    get_activity_trend provider guild_id 7 = Inl e \<or>
    get_join_leave_stats provider guild_id 30 = Inl e \<or>
    get_channel_activity provider guild_id 30 = Inl e \<longrightarrow>
      (\<exists>e'. calculate_health_score provider guild_id = Inl e')) \<and>
   (get_activity_trend provider guild_id 7 = Inl e \<or>
    get_channel_activity provider guild_id 30 = Inl e \<or>
    get_join_leave_stats provider guild_id 30 = Inl e \<or>
    get_peak_hours provider guild_id 30 = Inl e \<longrightarrow>
      (\<exists>e'. generate_suggestions provider guild_id = Inl e'))"
proof -
  have p: "\<exists>e'. get_pulse provider guild_id days = Inl e'"
    if "get_message_count provider guild_id days = Inl e \<or>
        get_active_users provider guild_id days = Inl e \<or>
        get_activity_trend provider guild_id days = Inl e \<or>
        get_peak_hours provider guild_id days = Inl e \<or>
        get_quiet_channels provider guild_id days = Inl e"
  proof (cases "get_pulse provider guild_id days")
    case (Inl e')
    then show ?thesis by blast
  next
    case (Inr r)
    from get_pulse_Inr [OF Inr] that show ?thesis by auto
  qed
  have h: "\<exists>e'. calculate_health_score provider guild_id = Inl e'"
    if "get_message_count provider guild_id 30 = Inl e \<or>
        get_active_users provider guild_id 30 = Inl e \<or>
        get_active_users provider guild_id 7 = Inl e \<or>
        get_activity_trend provider guild_id 7 = Inl e \<or>
        get_join_leave_stats provider guild_id 30 = Inl e \<or>
        get_channel_activity provider guild_id 30 = Inl e"
  proof (cases "calculate_health_score provider guild_id")
    case (Inl e')
    then show ?thesis by blast
  next
    case (Inr r)
    from calculate_health_score_Inr [OF Inr] that show ?thesis by auto
  qed
  have g: "\<exists>e'. generate_suggestions provider guild_id = Inl e'"
    if "get_activity_trend provider guild_id 7 = Inl e \<or>
        get_channel_activity provider guild_id 30 = Inl e \<or>
        get_join_leave_stats provider guild_id 30 = Inl e \<or>
        get_peak_hours provider guild_id 30 = Inl e"
  proof (cases "generate_suggestions provider guild_id")
    case (Inl e')
    then show ?thesis by blast
  next
    case (Inr r)
    from generate_suggestions_queries [OF Inr] that show ?thesis by auto
  qed
  show ?thesis
    using p h g analyze_channels_failure [of db guild_id days e]
      get_top_contributors_failure [of db guild_id days e]
      analytics_get_pulse_failure [of db guild_id days e]
      analytics_health_failure [of db guild_id e]
      analytics_suggestions_default [of db guild_id]
    by blast
qed

theorem query_failure_handling_witness:
  "get_channel_stats failing_manager 1 7 = Inl QueryError \<and>
   get_user_stats failing_manager 1 7 = Inl QueryError \<and>
   get_message_stats failing_manager 1 7 = Inl QueryError \<and>
   get_message_count failing_provider 1 7 = Inl QueryError \<and>
   get_message_count failing_provider 1 30 = Inl QueryError \<and>
   get_activity_trend failing_provider 1 7 = Inl QueryError \<and>
   analyze_channels failing_manager 1 7 = no_channels \<and>
   get_top_contributors failing_manager 1 7 = [] \<and>
   analytics_get_pulse failing_manager 1 7 = pulse_default \<and>
   analytics_calculate_health_score failing_manager 1 = health_default \<and>
   (\<exists>e'. get_pulse failing_provider 1 7 = Inl e') \<and>
   (\<exists>e'. calculate_health_score failing_provider 1 = Inl e') \<and>
   (\<exists>e'. generate_suggestions failing_provider 1 = Inl e')"
  using query_failure_handling [of failing_manager 1 7 QueryError failing_provider]
  by (simp add: failing_manager_def failing_provider_def)

text \<open>
  C3 (as stated) fails: with a provider whose queries raise, the three operations of
  \<open>health_analyzer.py\<close> hand the exception to their caller.
\<close>

theorem health_analyzer_propagates_counterexample:
  "calculate_health_score failing_provider 1 = Inl QueryError \<and>
   get_pulse failing_provider 1 7 = Inl QueryError \<and>
   generate_suggestions failing_provider 1 = Inl QueryError"
  by (simp add: calculate_health_score_def get_pulse_def generate_suggestions_def
      failing_provider_def)

subsection \<open>The buckets of the channel analyzer\<close>

lemma set_sort_key_reverse [simp]: "set (sort_key_reverse f xs) = set xs"
  by (simp add: sort_key_reverse_def)

lemma length_sort_key_reverse [simp]: "length (sort_key_reverse f xs) = length xs"
  by (simp add: sort_key_reverse_def)


















lemma entry_ids [simp]:
  "ac_id (active_entry c) = cs_channel_id c"
  "dc_id (dead_entry days c) = cs_channel_id c"
  "dl_id (declining_entry avg c) = cs_channel_id c"
  by (simp_all add: active_entry_def dead_entry_def declining_entry_def)










subsection \<open>Rising stars\<close>

lemma rising_loop_ids:
  "rising_loop days cs acc = Inr out \<Longrightarrow>
   rs_user_id ` set out \<subseteq> rs_user_id ` set acc \<union> c_user_id ` set cs"
proof (induction cs arbitrary: acc)
  case Nil
  then show ?case by auto
next
  case (Cons c cs)
  show ?case
  proof (cases "days = 0")
    case True
    with Cons.prems show ?thesis by simp
  next
    case False
    show ?thesis
    proof (cases "of_int (c_messages c) / (of_int days :: real) \<ge> 2 \<and> c_channels_used c \<ge> 2")
      case True
      with Cons.prems False have
        "rising_loop days cs
           (acc @ [\<lparr>rs_user_id = c_user_id c, rs_messages = c_messages c,
                    rs_messages_per_day = py_round1 (of_int (c_messages c) / of_int days),
                    rs_channels_used = c_channels_used c,
                    rs_potential =
                      (if of_int (c_messages c) / (of_int days :: real) \<ge> 5
                       then High else Medium)\<rparr>]) = Inr out"
        by (simp add: Let_def)
      from Cons.IH [OF this] show ?thesis by auto
    next
      case F2: False
      with Cons.prems False have "rising_loop days cs acc = Inr out"
        by (auto simp: Let_def)
      from Cons.IH [OF this] show ?thesis by auto
    qed
  qed
qed

lemma rising_ids:
  "rs_user_id ` set (identify_rising_stars db guild_id days) \<subseteq>
   c_user_id ` set (get_top_contributors db guild_id days)"
proof (cases "rising_loop days (get_top_contributors db guild_id days) []")
  case (Inl e)
  then show ?thesis by (simp add: identify_rising_stars_def)
next
  case (Inr out)
  from rising_loop_ids [OF Inr]
  have "rs_user_id ` set out \<subseteq> c_user_id ` set (get_top_contributors db guild_id days)"
    by simp
  moreover have "set (take 10 (sort_key_reverse rs_messages_per_day out)) \<subseteq> set out"
    using set_take_subset [of 10 "sort_key_reverse rs_messages_per_day out"]
    by (simp add: sort_key_reverse_def)
  ultimately show ?thesis using Inr
    by (auto simp: identify_rising_stars_def)
qed

lemma top_twenty: "length (get_top_contributors db guild_id days) \<le> 20"
  by (simp add: get_top_contributors_def Let_def split: sum.splits)

lemma busy_score: "calculate_contributor_score (busy_user i) crowd = 75"
  by (simp add: calculate_contributor_score_def message_score_def channel_score_def
      calculate_consistency_def calculate_engagement_rate_def crowd_def busy_user_def
      newcomer_def py_round1_def py_round_def)

lemma newcomer_score: "calculate_contributor_score newcomer crowd = 61.2"
  by (simp add: calculate_contributor_score_def message_score_def channel_score_def
      calculate_consistency_def calculate_engagement_rate_def crowd_def busy_user_def
      newcomer_def py_round1_def py_round_def)


lemma contributor_of_busy:
  "contributor_of crowd (busy_user i) =
     \<lparr>c_user_id = i, c_score = 75, c_messages = 100, c_channels_used = 1,
      c_engagement = 100, c_consistency = 50, c_first_message = None,
      c_last_message = None\<rparr>"
  by (simp add: contributor_of_def busy_score)
     (simp add: busy_user_def calculate_engagement_rate_def calculate_consistency_def)

lemma contributor_of_newcomer:
  "contributor_of crowd newcomer =
     \<lparr>c_user_id = 21, c_score = 61.2, c_messages = 28, c_channels_used = 2,
      c_engagement = 100, c_consistency = 50, c_first_message = None,
      c_last_message = None\<rparr>"
  by (simp add: contributor_of_def newcomer_score)
     (simp add: newcomer_def calculate_engagement_rate_def calculate_consistency_def)

lemma crowd_contributors:
  "map c_user_id (get_top_contributors (fixed_manager no_messages [] crowd) 1 14) =
     [1, 2, 3, 4, 5, 6, 7, 8, 9, 10, 11, 12, 13, 14, 15, 16, 17, 18, 19, 20] \<and>
   identify_rising_stars (fixed_manager no_messages [] crowd) 1 14 = []"
proof -
  have ne: "crowd \<noteq> []" by (simp add: crowd_def)
  have m: "map (contributor_of crowd) crowd =
      map (contributor_of crowd)
        (map busy_user [1, 2, 3, 4, 5, 6, 7, 8, 9, 10, 11, 12, 13, 14, 15, 16, 17, 18, 19, 20]
         @ [newcomer])"
    using crowd_def by (rule arg_cong)
  have t: "get_top_contributors (fixed_manager no_messages [] crowd) 1 14 =
      take 20 (sort_key_reverse c_score (map (contributor_of crowd) crowd))"
    using ne by (simp add: get_top_contributors_def fixed_manager_def)
  have v: "get_top_contributors (fixed_manager no_messages [] crowd) 1 14 =
      map (\<lambda>i. \<lparr>c_user_id = i, c_score = 75, c_messages = 100, c_channels_used = 1,
      c_engagement = 100, c_consistency = 50, c_first_message = None,
      c_last_message = None\<rparr>) [1, 2, 3, 4, 5, 6, 7, 8, 9, 10, 11, 12, 13, 14, 15, 16, 17, 18, 19, 20]"
    unfolding t m
    by (simp add: contributor_of_busy contributor_of_newcomer sort_key_reverse_def)
  have i: "identify_rising_stars (fixed_manager no_messages [] crowd) 1 14 = []"
    unfolding identify_rising_stars_def v
    by (simp add: sort_key_reverse_def)
  show ?thesis unfolding v using i by simp
qed

text \<open>
  C9. The rising stars are taken from the result of \<open>get_top_contributors\<close>, which
  holds at most 20 users. In the cohort \<open>crowd\<close> the newcomer writes two messages a day
  in two channels, which meets the rising-star conditions, but scores 61.2 behind twenty
  users who score 75: the newcomer is not among the top contributors and the list of
  rising stars is empty.
\<close>

theorem rising_stars_from_top_twenty:
  "length (get_top_contributors db guild_id days) \<le> 20 \<and>
   rs_user_id ` set (identify_rising_stars db guild_id days) \<subseteq>
     c_user_id ` set (get_top_contributors db guild_id days) \<and>
   newcomer \<in> set crowd \<and>
   calculate_contributor_score newcomer crowd = 61.2 \<and>
   calculate_contributor_score (busy_user i) crowd = 75 \<and>
   (2 :: real) \<le> of_int (us_message_count newcomer) / 14 \<and> 2 \<le> us_channels_used newcomer \<and>
   us_user_id newcomer \<notin>
     c_user_id ` set (get_top_contributors (fixed_manager no_messages [] crowd) 1 14) \<and>
   identify_rising_stars (fixed_manager no_messages [] crowd) 1 14 = []"
proof -
  have n: "newcomer \<in> set crowd" by (simp add: crowd_def)
  have k: "(2 :: real) \<le> of_int (us_message_count newcomer) / 14 \<and>
           2 \<le> us_channels_used newcomer"
    by (simp add: newcomer_def)
  have "c_user_id ` set (get_top_contributors (fixed_manager no_messages [] crowd) 1 14) =
      set [1, 2, 3, 4, 5, 6, 7, 8, 9, 10, 11, 12, 13, 14, 15, 16, 17, 18, 19, 20]"
    using crowd_contributors by (metis set_map)
  then have x: "us_user_id newcomer \<notin>
     c_user_id ` set (get_top_contributors (fixed_manager no_messages [] crowd) 1 14)"
    by (simp add: newcomer_def)
  from top_twenty [of db guild_id days] rising_ids [of db guild_id days] n k x
    crowd_contributors newcomer_score busy_score [of i]
  show ?thesis by blast
qed

theorem rising_stars_from_top_twenty_witness:
  "length (get_top_contributors (fixed_manager no_messages [] crowd) 1 14) \<le> 20 \<and>
   rs_user_id ` set (identify_rising_stars (fixed_manager no_messages [] crowd) 1 14) \<subseteq>
     c_user_id ` set (get_top_contributors (fixed_manager no_messages [] crowd) 1 14)"
  using rising_stars_from_top_twenty [of "fixed_manager no_messages [] crowd" 1 14]
  by blast

end
